theory Spec2Isabelle
  imports Complex_Main
begin

section \<open>Python values\<close>

text \<open>
  The program is one Python module, \<^verbatim>\<open>main.py\<close>. It reads JSON order books over
  HTTP, so the values it handles are those \<^verbatim>\<open>r.json()\<close> can produce, together with
  Python's \<^verbatim>\<open>None\<close>. A Python \<^verbatim>\<open>float\<close> is an IEEE 754 double: a finite
  value (a rational here; the doubles are a subset of them), the negative zero, the two
  infinities or a NaN. Strings are lists of bytes; the texts of the program that are not
  ASCII are written as their UTF-8 bytes.
\<close>

datatype pyfloat = Fin rat | NegZero | PInf | NInf | NaN

datatype pyval =
    PNone
  | PBool bool
  | PInt int
  | PFloat pyfloat
  | PStr string
  | PList "pyval list"
  | PDict "(string \<times> pyval) list"

text \<open>
  The exceptions the program can meet, each with the data its text is made of. All of them
  are subclasses of \<^verbatim>\<open>Exception\<close>, so \<^verbatim>\<open>except Exception\<close> catches every one.
  The wording of the interpreter's own messages follows CPython 3.11.
\<close>

datatype pyexn =
    KeyError string
  | TypeError string
  | AttributeError string
  | ValueError string
  | OverflowError string
  | RequestException string
  | HTTPError string
  | JSONDecodeError string

definition quote :: "string \<Rightarrow> string" where
  "quote s = [CHR 0x27] @ s @ [CHR 0x27]"

text \<open>\<^verbatim>\<open>str(e)\<close>: the message, and for a \<^verbatim>\<open>KeyError\<close> the \<^verbatim>\<open>repr\<close> of the key.\<close>

fun exn_text :: "pyexn \<Rightarrow> string" where
  "exn_text (KeyError k) = quote k"
| "exn_text (TypeError m) = m"
| "exn_text (AttributeError m) = m"
| "exn_text (ValueError m) = m"
| "exn_text (OverflowError m) = m"
| "exn_text (RequestException m) = m"
| "exn_text (HTTPError m) = m"
| "exn_text (JSONDecodeError m) = m"

text \<open>\<^verbatim>\<open>try: body except Exception as e: handler(e)\<close>.\<close>

definition try_except :: "pyexn + 'a \<Rightarrow> (pyexn \<Rightarrow> pyexn + 'a) \<Rightarrow> pyexn + 'a" where
  "try_except body handler = (case body of Inl e \<Rightarrow> handler e | Inr v \<Rightarrow> Inr v)"

section \<open>Floating point\<close>

definition pow2 :: "int \<Rightarrow> rat" where
  "pow2 e = (if 0 \<le> e then 2 ^ nat e else 1 / 2 ^ nat (- e))"

definition round_half_even :: "rat \<Rightarrow> int" where
  "round_half_even q =
     (let f = \<lfloor>q\<rfloor>; d = q - of_int f
      in if d < 1 / 2 then f
         else if 1 / 2 < d then f + 1
         else if even f then f else f + 1)"

text \<open>The number of binary digits of \<open>n\<close> less one: \<open>\<lfloor>log\<^sub>2 n\<rfloor>\<close> for \<open>n > 0\<close>.\<close>

function log2_floor :: "int \<Rightarrow> int" where
  "log2_floor n = (if n < 2 then 0 else 1 + log2_floor (n div 2))"
  by pat_completeness auto
termination
  by (relation "measure nat") auto

declare log2_floor.simps [simp del]

text \<open>\<open>\<lfloor>log\<^sub>2 q\<rfloor>\<close> for a rational \<open>q > 0\<close>.\<close>

definition ilog2 :: "rat \<Rightarrow> int" where
  "ilog2 q =
     (if 1 \<le> q then log2_floor \<lfloor>q\<rfloor>
      else let n = log2_floor \<lfloor>1 / q\<rfloor>
           in if 1 \<le> q * pow2 n then - n else - n - 1)"

text \<open>
  Rounding a positive rational to the nearest double, ties to even: 53 bits of precision,
  exponents from -1022 (below it the spacing stays \<open>2\<^sup>-\<^sup>1\<^sup>0\<^sup>7\<^sup>4\<close>), and no value once the
  rounded magnitude reaches \<open>2\<^sup>1\<^sup>0\<^sup>2\<^sup>4\<close>.
\<close>

definition round_mag :: "rat \<Rightarrow> rat option" where
  "round_mag q =
     (let e = max (ilog2 q) (- 1022);
          ulp = pow2 (e - 52);
          v = of_int (round_half_even (q / ulp)) * ulp
      in if pow2 1024 \<le> v then None else Some v)"

definition round_double :: "rat \<Rightarrow> pyfloat" where
  "round_double q =
     (if q = 0 then Fin 0
      else if 0 < q then (case round_mag q of None \<Rightarrow> PInf | Some v \<Rightarrow> Fin v)
      else (case round_mag (- q) of
              None \<Rightarrow> NInf
            | Some v \<Rightarrow> if v = 0 then NegZero else Fin (- v)))"

text \<open>\<^verbatim>\<open>a + b\<close> on floats.\<close>

fun fadd :: "pyfloat \<Rightarrow> pyfloat \<Rightarrow> pyfloat" where
  "fadd NaN _ = NaN"
| "fadd _ NaN = NaN"
| "fadd PInf NInf = NaN"
| "fadd NInf PInf = NaN"
| "fadd PInf _ = PInf"
| "fadd _ PInf = PInf"
| "fadd NInf _ = NInf"
| "fadd _ NInf = NInf"
| "fadd NegZero NegZero = NegZero"
| "fadd NegZero (Fin b) = Fin b"
| "fadd (Fin a) NegZero = Fin a"
| "fadd (Fin a) (Fin b) = (if a + b = 0 then Fin 0 else round_double (a + b))"

text \<open>
  The comparisons: a NaN compares false with everything, the two zeros are equal, and the
  other values are ordered by \<open>fkey\<close> (first the infinity class, then the finite value).
\<close>

fun fkey :: "pyfloat \<Rightarrow> int \<times> rat" where
  "fkey (Fin q) = (0, q)"
| "fkey NegZero = (0, 0)"
| "fkey PInf = (1, 0)"
| "fkey NInf = (- 1, 0)"
| "fkey NaN = (0, 0)"

definition key_less :: "int \<times> rat \<Rightarrow> int \<times> rat \<Rightarrow> bool" where
  "key_less a b = (fst a < fst b \<or> (fst a = fst b \<and> snd a < snd b))"

definition fgt :: "pyfloat \<Rightarrow> pyfloat \<Rightarrow> bool" where
  "fgt a b = (a \<noteq> NaN \<and> b \<noteq> NaN \<and> key_less (fkey b) (fkey a))"

definition fge :: "pyfloat \<Rightarrow> pyfloat \<Rightarrow> bool" where
  "fge a b = (a \<noteq> NaN \<and> b \<noteq> NaN \<and> \<not> key_less (fkey a) (fkey b))"

definition fneg :: "pyfloat \<Rightarrow> pyfloat" where
  "fneg x = (case x of
       Fin q \<Rightarrow> if q = 0 then NegZero else Fin (- q)
     | NegZero \<Rightarrow> Fin 0
     | PInf \<Rightarrow> NInf
     | NInf \<Rightarrow> PInf
     | NaN \<Rightarrow> NaN)"

section \<open>The built-in \<^verbatim>\<open>float()\<close>\<close>

text \<open>
  \<^verbatim>\<open>float(s)\<close> on a string, as CPython does it on ASCII text: an underscore is allowed
  between two digits only, white space is stripped at both ends, and what is left is an
  optionally signed \<^verbatim>\<open>inf\<close>, \<^verbatim>\<open>infinity\<close> or \<^verbatim>\<open>nan\<close> (in any case), or a decimal
  numeral with at least one digit and an optional exponent. The value is the nearest
  double. A string with a byte above 127 is not parsed here (CPython also accepts the other
  Unicode decimal digits and spaces).
\<close>

definition is_digit :: "char \<Rightarrow> bool" where
  "is_digit c = (48 \<le> (of_char c :: nat) \<and> (of_char c :: nat) \<le> 57)"

definition is_space :: "char \<Rightarrow> bool" where
  "is_space c = (c = CHR '' '' \<or> (9 \<le> (of_char c :: nat) \<and> (of_char c :: nat) \<le> 13))"

definition lower :: "char \<Rightarrow> char" where
  "lower c =
     (if 65 \<le> (of_char c :: nat) \<and> (of_char c :: nat) \<le> 90
      then char_of (of_char c + (32::nat)) else c)"

fun del_underscores :: "char \<Rightarrow> string \<Rightarrow> string option" where
  "del_underscores prev [] = (if prev = CHR ''_'' then None else Some [])"
| "del_underscores prev (c # cs) =
     (if c = CHR ''_'' then
        (if is_digit prev then del_underscores c cs else None)
      else if prev = CHR ''_'' \<and> \<not> is_digit c then None
      else map_option ((#) c) (del_underscores c cs))"

definition strip :: "string \<Rightarrow> string" where
  "strip s = rev (dropWhile is_space (rev (dropWhile is_space s)))"

definition digit_val :: "char \<Rightarrow> int" where
  "digit_val c = int (of_char c) - 48"

definition digits_val :: "string \<Rightarrow> int" where
  "digits_val ds = foldl (\<lambda>a c. 10 * a + digit_val c) 0 ds"

definition pow10 :: "int \<Rightarrow> rat" where
  "pow10 e = (if 0 \<le> e then 10 ^ nat e else 1 / 10 ^ nat (- e))"

text \<open>A sign, if there is one: whether it is a minus, and the rest.\<close>

fun split_sign :: "string \<Rightarrow> bool \<times> string" where
  "split_sign [] = (False, [])"
| "split_sign (c # cs) =
     (if c = CHR ''-'' then (True, cs)
      else if c = CHR ''+'' then (False, cs)
      else (False, c # cs))"

definition parse_exponent :: "string \<Rightarrow> int option" where
  "parse_exponent s =
     (case s of
        [] \<Rightarrow> Some 0
      | c # t \<Rightarrow>
          if lower c = CHR ''e'' then
            (let (neg, t') = split_sign t
             in if t' \<noteq> [] \<and> list_all is_digit t'
                then Some (if neg then - digits_val t' else digits_val t')
                else None)
          else None)"

definition parse_decimal :: "string \<Rightarrow> rat option" where
  "parse_decimal s =
     (let ip = takeWhile is_digit s;
          r1 = dropWhile is_digit s;
          fp = (case r1 of c # t \<Rightarrow> if c = CHR ''.'' then takeWhile is_digit t else [] | [] \<Rightarrow> []);
          r2 = (case r1 of c # t \<Rightarrow> if c = CHR ''.'' then dropWhile is_digit t else r1 | [] \<Rightarrow> [])
      in if ip = [] \<and> fp = [] then None
         else (case parse_exponent r2 of
                 None \<Rightarrow> None
               | Some e \<Rightarrow> Some (of_int (digits_val (ip @ fp)) * pow10 (e - int (length fp)))))"

definition parse_unsigned :: "string \<Rightarrow> pyfloat option" where
  "parse_unsigned s =
     (let l = map lower s
      in if l = ''inf'' \<or> l = ''infinity'' then Some PInf
         else if l = ''nan'' then Some NaN
         else map_option round_double (parse_decimal s))"

definition parse_float :: "string \<Rightarrow> pyfloat option" where
  "parse_float s =
     (case del_underscores (CHR 0x00) s of
        None \<Rightarrow> None
      | Some u \<Rightarrow>
          (let (neg, body) = split_sign (strip u)
           in map_option (\<lambda>x. if neg then fneg x else x) (parse_unsigned body)))"

text \<open>\<^verbatim>\<open>type(x).__name__\<close>.\<close>

fun type_name :: "pyval \<Rightarrow> string" where
  "type_name PNone = ''NoneType''"
| "type_name (PBool _) = ''bool''"
| "type_name (PInt _) = ''int''"
| "type_name (PFloat _) = ''float''"
| "type_name (PStr _) = ''str''"
| "type_name (PList _) = ''list''"
| "type_name (PDict _) = ''dict''"

definition float_type_error :: "pyval \<Rightarrow> pyexn" where
  "float_type_error x =
     TypeError (''float() argument must be a string or a real number, not '' @ quote (type_name x))"

text \<open>
  \<^verbatim>\<open>float(x)\<close>: a bool is a number, an \<^verbatim>\<open>int\<close> is rounded (and too large an \<^verbatim>\<open>int\<close>
  is an \<^verbatim>\<open>OverflowError\<close>), a string is parsed, anything else is a \<^verbatim>\<open>TypeError\<close>.
\<close>

fun py_float :: "pyval \<Rightarrow> pyexn + pyfloat" where
  "py_float PNone = Inl (float_type_error PNone)"
| "py_float (PBool b) = Inr (Fin (if b then 1 else 0))"
| "py_float (PInt i) =
     (case round_double (of_int i) of
        PInf \<Rightarrow> Inl (OverflowError ''int too large to convert to float'')
      | NInf \<Rightarrow> Inl (OverflowError ''int too large to convert to float'')
      | f \<Rightarrow> Inr f)"
| "py_float (PFloat f) = Inr f"
| "py_float (PStr s) =
     (case parse_float s of
        None \<Rightarrow> Inl (ValueError (''could not convert string to float: '' @ quote s))
      | Some f \<Rightarrow> Inr f)"
| "py_float (PList xs) = Inl (float_type_error (PList xs))"
| "py_float (PDict kvs) = Inl (float_type_error (PDict kvs))"

section \<open>Formatting\<close>

text \<open>The decimal digits of a natural number, as \<^verbatim>\<open>str\<close> writes them.\<close>

function dec :: "int \<Rightarrow> string" where
  "dec n = (if n < 10 then [char_of (48 + nat n)] else dec (n div 10) @ [char_of (48 + nat (n mod 10))])"
  by pat_completeness auto
termination
  by (relation "measure nat") auto

declare dec.simps [simp del]

definition zero_pad :: "nat \<Rightarrow> string \<Rightarrow> string" where
  "zero_pad n s = replicate (n - length s) (CHR ''0'') @ s"

definition fixed :: "nat \<Rightarrow> rat \<Rightarrow> string" where
  "fixed n a =
     (let m = round_half_even (a * 10 ^ n)
      in dec (m div 10 ^ n) @ (if n = 0 then [] else ''.'' @ zero_pad n (dec (m mod 10 ^ n))))"

text \<open>\<^verbatim>\<open>f"{x:.nf}"\<close>: the exact value rounded to \<open>n\<close> decimals, ties to even.\<close>

fun format_f :: "nat \<Rightarrow> pyfloat \<Rightarrow> string" where
  "format_f n (Fin q) = (if q < 0 then ''-'' @ fixed n (- q) else fixed n q)"
| "format_f n NegZero = ''-'' @ fixed n 0"
| "format_f n PInf = ''inf''"
| "format_f n NInf = ''-inf''"
| "format_f n NaN = ''nan''"

section \<open>Operations on values\<close>

text \<open>Truth value testing, as \<^verbatim>\<open>not x\<close> uses it.\<close>

fun truthy :: "pyval \<Rightarrow> bool" where
  "truthy PNone = False"
| "truthy (PBool b) = b"
| "truthy (PInt i) = (i \<noteq> 0)"
| "truthy (PFloat f) = (f \<noteq> Fin 0 \<and> f \<noteq> NegZero)"
| "truthy (PStr s) = (s \<noteq> [])"
| "truthy (PList xs) = (xs \<noteq> [])"
| "truthy (PDict kvs) = (kvs \<noteq> [])"

fun is_prefix :: "string \<Rightarrow> string \<Rightarrow> bool" where
  "is_prefix [] ys = True"
| "is_prefix (x # xs) [] = False"
| "is_prefix (x # xs) (y # ys) = (x = y \<and> is_prefix xs ys)"

fun is_substring :: "string \<Rightarrow> string \<Rightarrow> bool" where
  "is_substring xs [] = (xs = [])"
| "is_substring xs (y # ys) = (is_prefix xs (y # ys) \<or> is_substring xs ys)"

text \<open>
  \<^verbatim>\<open>k in x\<close> for a string \<open>k\<close>: a key of a dict, an element of a list, a substring
  of a string; the other values are no containers.
\<close>

fun py_in :: "string \<Rightarrow> pyval \<Rightarrow> pyexn + bool" where
  "py_in k (PDict kvs) = Inr (k \<in> set (map fst kvs))"
| "py_in k (PList xs) = Inr (PStr k \<in> set xs)"
| "py_in k (PStr s) = Inr (is_substring k s)"
| "py_in k x = Inl (TypeError (''argument of type '' @ quote (type_name x) @ '' is not iterable''))"

text \<open>\<^verbatim>\<open>x[k]\<close> for a string \<open>k\<close>.\<close>

fun py_getitem :: "pyval \<Rightarrow> string \<Rightarrow> pyexn + pyval" where
  "py_getitem (PDict kvs) k = (case map_of kvs k of None \<Rightarrow> Inl (KeyError k) | Some v \<Rightarrow> Inr v)"
| "py_getitem (PList xs) k = Inl (TypeError ''list indices must be integers or slices, not str'')"
| "py_getitem (PStr s) k = Inl (TypeError (''string indices must be integers, not '' @ quote ''str''))"
| "py_getitem x k = Inl (TypeError (quote (type_name x) @ '' object is not subscriptable''))"

text \<open>
  What \<^verbatim>\<open>for b in x\<close> goes through: the elements of a list, the keys of a dict, the
  characters of a string.
\<close>

fun py_iter :: "pyval \<Rightarrow> pyexn + pyval list" where
  "py_iter (PList xs) = Inr xs"
| "py_iter (PDict kvs) = Inr (map (\<lambda>kv. PStr (fst kv)) kvs)"
| "py_iter (PStr s) = Inr (map (\<lambda>c. PStr [c]) s)"
| "py_iter x = Inl (TypeError (quote (type_name x) @ '' object is not iterable''))"

text \<open>\<^verbatim>\<open>b.get(k)\<close>: only a dict has the method.\<close>

fun py_get :: "pyval \<Rightarrow> string \<Rightarrow> pyexn + pyval" where
  "py_get (PDict kvs) k = Inr (case map_of kvs k of None \<Rightarrow> PNone | Some v \<Rightarrow> v)"
| "py_get x k = Inl (AttributeError (quote (type_name x) @ '' object has no attribute '' @ quote ''get''))"

section \<open>Configuration\<close>

definition ORDERBOOK_URL :: string where
  "ORDERBOOK_URL = ''https://clob.polymarket.com/book''"

text \<open>The literal \<^verbatim>\<open>1.01\<close>: the double nearest to 101/100.\<close>

definition THRESHOLD :: pyfloat where
  "THRESHOLD = round_double (101 / 100)"

definition TOKENS :: "(string \<times> (string \<times> string) list) list" where
  "TOKENS =
     [(''CUT25'',
        [(''YES'', ''92703761682322480664976766247614127878023988651992837287050266308961660624165''),
         (''NO'', ''48193521645113703700467246669338225849301704920590102230072263970163239985027'')]),
      (''CUTCUTCUT'',
        [(''YES'', ''95417221270011105499568468828531867453865533932484364685389046548264041887861''),
         (''NO'', ''101322769768415942646735830228475566436146317671120615766292718518675772773223'')]),
      (''NOCHANGE'',
        [(''YES'', ''112838095111461683880944516726938163688341306245473734071798778736646352193304''),
         (''NO'', ''7321318078891059430231591636389479745928915782241484131001985601124919020061'')]),
      (''CUTCUTPAUSE'',
        [(''YES'', ''113401754986342384261044700457165882158632153698445535217371023842472815025478''),
         (''NO'', ''81906419701908530974011339985097627770048267181648886108185004759027261509242'')])]"

type_synonym combo = "string \<times> string \<times> string \<times> string"

definition MONITORED_COMBOS :: "combo list" where
  "MONITORED_COMBOS =
     [(''CUT25'', ''YES'', ''CUTCUTPAUSE'', ''YES''),
      (''NOCHANGE'', ''YES'', ''CUTCUTCUT'', ''YES'')]"

text \<open>
  The module's globals, as the functions read them. The two credentials are what
  \<^verbatim>\<open>os.getenv\<close> returned: \<open>None\<close> for a variable that is not set.
\<close>

record config =
  threshold :: pyfloat
  bot_token :: "string option"
  chat_id :: "string option"
  tokens :: "(string \<times> (string \<times> string) list) list"
  combos :: "combo list"

definition shipped :: "string option \<Rightarrow> string option \<Rightarrow> config" where
  "shipped tok chat =
     \<lparr>threshold = THRESHOLD, bot_token = tok, chat_id = chat,
      tokens = TOKENS, combos = MONITORED_COMBOS\<rparr>"

section \<open>The outside world\<close>

text \<open>
  The answer to an HTTP request is not determined by the program. \<open>http_get w n token\<close> is
  what the \<open>n\<close>-th \<^verbatim>\<open>requests.get\<close> of the run does for that token: it raises, or it
  returns a response with a status code and a body, which \<^verbatim>\<open>r.json()\<close> can parse or
  not. \<open>http_post w n url payload\<close> is what the \<open>n\<close>-th \<^verbatim>\<open>requests.post\<close> does: it
  raises or it returns.
\<close>

record response =
  status :: nat
  json_body :: "pyval option"

record world =
  http_get :: "nat \<Rightarrow> string \<Rightarrow> pyexn + response"
  http_post :: "nat \<Rightarrow> string \<Rightarrow> (string \<times> string) list \<Rightarrow> pyexn option"

text \<open>
  What a run has done so far: the lines printed, the token of each GET request, the
  message of each call of \<^verbatim>\<open>telegram_send\<close>, and the URL and payload of each POST
  request.
\<close>

record state =
  out :: "string list"
  gets :: "string list"
  tg_calls :: "string list"
  posts :: "(string \<times> (string \<times> string) list) list"

definition init :: state where
  "init = \<lparr>out = [], gets = [], tg_calls = [], posts = []\<rparr>"

definition print :: "string \<Rightarrow> state \<Rightarrow> state" where
  "print line s = s\<lparr>out := out s @ [line]\<rparr>"

section \<open>The program\<close>

subsection \<open>\<^verbatim>\<open>safe_float\<close>\<close>

text \<open>
  \<^verbatim>\<open>try: return float(x)\<close> \<^verbatim>\<open>except Exception: return None\<close>. The result is a float
  or \<^verbatim>\<open>None\<close>, which is \<open>None\<close> here.
\<close>

definition safe_float :: "pyval \<Rightarrow> pyexn + pyfloat option" where
  "safe_float x = try_except (map_sum id Some (py_float x)) (\<lambda>e. Inr None)"

subsection \<open>\<^verbatim>\<open>telegram_send\<close>\<close>

text \<open>\<^verbatim>\<open>not v\<close> for what \<^verbatim>\<open>os.getenv\<close> returned: \<^verbatim>\<open>None\<close> and the empty string are false.\<close>

definition env_set :: "string option \<Rightarrow> bool" where
  "env_set v = (case v of None \<Rightarrow> False | Some t \<Rightarrow> t \<noteq> [])"

definition env_text :: "string option \<Rightarrow> string" where
  "env_text v = (case v of None \<Rightarrow> ''None'' | Some t \<Rightarrow> t)"

definition warning_sign :: string where
  "warning_sign = [CHR 0xE2, CHR 0x9A, CHR 0xA0, CHR 0xEF, CHR 0xB8, CHR 0x8F]"

definition not_configured :: string where
  "not_configured = warning_sign @ '' Telegram not configured''"

definition telegram_url :: "config \<Rightarrow> string" where
  "telegram_url cfg = ''https://api.telegram.org/bot'' @ env_text (bot_token cfg) @ ''/sendMessage''"

definition telegram_payload :: "config \<Rightarrow> string \<Rightarrow> (string \<times> string) list" where
  "telegram_payload cfg msg =
     [(''chat_id'', env_text (chat_id cfg)), (''text'', msg), (''parse_mode'', ''HTML'')]"

definition telegram_send :: "config \<Rightarrow> world \<Rightarrow> string \<Rightarrow> state \<Rightarrow> (pyexn + unit) \<times> state" where
  "telegram_send cfg w msg s =
     (let s0 = s\<lparr>tg_calls := tg_calls s @ [msg]\<rparr>
      in if \<not> env_set (bot_token cfg) \<or> \<not> env_set (chat_id cfg) then
           (Inr (), print not_configured s0)
         else
           (let url = telegram_url cfg;
                payload = telegram_payload cfg msg;
                s1 = s0\<lparr>posts := posts s0 @ [(url, payload)]\<rparr>
            in case http_post w (length (posts s0)) url payload of
                 None \<Rightarrow> (Inr (), s1)
               | Some e \<Rightarrow> (Inr (), print (''Telegram error: '' @ exn_text e) s1)))"

subsection \<open>\<^verbatim>\<open>fetch_orderbook\<close>\<close>

text \<open>\<^verbatim>\<open>r.raise_for_status()\<close> raises for the status codes 400 to 599.\<close>

definition raise_for_status :: "response \<Rightarrow> pyexn + unit" where
  "raise_for_status r =
     (if 400 \<le> status r \<and> status r < 600 then Inl (HTTPError (dec (int (status r)))) else Inr ())"

definition response_json :: "response \<Rightarrow> pyexn + pyval" where
  "response_json r =
     (case json_body r of None \<Rightarrow> Inl (JSONDecodeError ''Expecting value'') | Some v \<Rightarrow> Inr v)"

text \<open>The body of the \<^verbatim>\<open>try\<close>, given what the request did.\<close>

definition fetch_body :: "pyexn + response \<Rightarrow> pyexn + pyval" where
  "fetch_body got =
     (case got of
        Inl e \<Rightarrow> Inl e
      | Inr r \<Rightarrow> (case raise_for_status r of Inl e \<Rightarrow> Inl e | Inr _ \<Rightarrow> response_json r))"

definition fetch_orderbook :: "world \<Rightarrow> string \<Rightarrow> state \<Rightarrow> (pyexn + pyval) \<times> state" where
  "fetch_orderbook w token_id s =
     (try_except (fetch_body (http_get w (length (gets s)) token_id)) (\<lambda>e. Inr PNone),
      s\<lparr>gets := gets s @ [token_id]\<rparr>)"

subsection \<open>\<^verbatim>\<open>best_bid\<close>\<close>

text \<open>The loop over the bids, with the running \<^verbatim>\<open>best\<close>.\<close>

fun bid_loop :: "pyfloat option \<Rightarrow> pyval list \<Rightarrow> pyexn + pyfloat option" where
  "bid_loop best [] = Inr best"
| "bid_loop best (b # bs) =
     (case py_get b ''price'' of
        Inl e \<Rightarrow> Inl e
      | Inr x \<Rightarrow>
          (case safe_float x of
             Inl e \<Rightarrow> Inl e
           | Inr p \<Rightarrow>
               if p \<noteq> None \<and> (best = None \<or> fgt (the p) (the best))
               then bid_loop p bs
               else bid_loop best bs))"

text \<open>What \<^verbatim>\<open>best_bid\<close> does with the fetched \<^verbatim>\<open>raw\<close>.\<close>

definition best_of :: "pyval \<Rightarrow> pyexn + pyfloat option" where
  "best_of raw =
     (if \<not> truthy raw then Inr None
      else (case py_in ''bids'' raw of
              Inl e \<Rightarrow> Inl e
            | Inr has \<Rightarrow>
                (if \<not> has then Inr None
                 else (case py_getitem raw ''bids'' of
                         Inl e \<Rightarrow> Inl e
                       | Inr bids \<Rightarrow>
                           (case py_iter bids of
                              Inl e \<Rightarrow> Inl e
                            | Inr bs \<Rightarrow> bid_loop None bs)))))"

definition best_bid :: "world \<Rightarrow> string \<Rightarrow> state \<Rightarrow> (pyexn + pyfloat option) \<times> state" where
  "best_bid w token_id s =
     (case fetch_orderbook w token_id s of
        (Inl e, s1) \<Rightarrow> (Inl e, s1)
      | (Inr raw, s1) \<Rightarrow> (best_of raw, s1))"

subsection \<open>\<^verbatim>\<open>scan_exit_opportunities\<close>\<close>

definition arrow :: string where
  "arrow = [CHR 0xE2, CHR 0x86, CHR 0x92]"

definition banner :: string where
  "banner = [CHR 0x0A, CHR 0xF0, CHR 0x9F, CHR 0x94, CHR 0x8D]
            @ '' Polymarket EXIT monitor (using bids)'' @ [CHR 0x0A]"

definition missing_line :: "combo \<Rightarrow> string" where
  "missing_line c =
     (case c of (mktA, legA, mktB, legB) \<Rightarrow>
        mktA @ '' '' @ legA @ '' / '' @ mktB @ '' '' @ legB @ '' '' @ arrow @ '' missing bids'')"

definition eval_line :: "combo \<Rightarrow> pyfloat \<Rightarrow> pyfloat \<Rightarrow> pyfloat \<Rightarrow> string" where
  "eval_line c bidA bidB tot =
     (case c of (mktA, legA, mktB, legB) \<Rightarrow>
        mktA @ '' '' @ legA @ '' + '' @ mktB @ '' '' @ legB @ '' ''
        @ arrow @ '' '' @ format_f 4 bidA @ '' + '' @ format_f 4 bidB @ '' = '' @ format_f 4 tot)"

definition alert_msg :: "config \<Rightarrow> combo \<Rightarrow> pyfloat \<Rightarrow> string" where
  "alert_msg cfg c tot =
     (case c of (mktA, legA, mktB, legB) \<Rightarrow>
        [CHR 0xF0, CHR 0x9F, CHR 0x92, CHR 0xB0] @ '' <b>EXIT OPPORTUNITY</b>'' @ [CHR 0x0A, CHR 0x0A]
        @ mktA @ '' '' @ legA @ '' + '' @ mktB @ '' '' @ legB @ [CHR 0x0A]
        @ ''Bid sum: <b>'' @ format_f 4 tot @ ''</b>'' @ [CHR 0x0A]
        @ ''Threshold: '' @ format_f 2 (threshold cfg) @ [CHR 0x0A, CHR 0x0A]
        @ ''Consider selling both positions.'')"

definition alert_sent :: string where
  "alert_sent = [CHR 0xF0, CHR 0x9F, CHR 0x9A, CHR 0xA8] @ '' Alert sent''"

text \<open>\<^verbatim>\<open>TOKENS[mkt][leg]\<close>: a \<^verbatim>\<open>KeyError\<close> for a market or a leg that is not there.\<close>

definition lookup :: "config \<Rightarrow> string \<Rightarrow> string \<Rightarrow> pyexn + string" where
  "lookup cfg mkt leg =
     (case map_of (tokens cfg) mkt of
        None \<Rightarrow> Inl (KeyError mkt)
      | Some legs \<Rightarrow> (case map_of legs leg of None \<Rightarrow> Inl (KeyError leg) | Some t \<Rightarrow> Inr t))"

text \<open>What the loop body does once both bids are fetched.\<close>

definition evaluate :: "config \<Rightarrow> world \<Rightarrow> combo \<Rightarrow> pyfloat option \<Rightarrow> pyfloat option \<Rightarrow> state
    \<Rightarrow> (pyexn + unit) \<times> state" where
  "evaluate cfg w c bidA bidB s =
     (if bidA = None \<or> bidB = None then (Inr (), print (missing_line c) s)
      else
        (let tot = fadd (the bidA) (the bidB);
             s1 = print (eval_line c (the bidA) (the bidB) tot) s
         in if fge tot (threshold cfg) then
              (case telegram_send cfg w (alert_msg cfg c tot) s1 of
                 (Inl e, s2) \<Rightarrow> (Inl e, s2)
               | (Inr _, s2) \<Rightarrow> (Inr (), print alert_sent s2))
            else (Inr (), s1)))"

text \<open>One turn of the loop, for one combination.\<close>

definition scan_combo :: "config \<Rightarrow> world \<Rightarrow> combo \<Rightarrow> state \<Rightarrow> (pyexn + unit) \<times> state" where
  "scan_combo cfg w c s =
     (case c of (mktA, legA, mktB, legB) \<Rightarrow>
        (case lookup cfg mktA legA of
           Inl e \<Rightarrow> (Inl e, s)
         | Inr tA \<Rightarrow>
             (case lookup cfg mktB legB of
                Inl e \<Rightarrow> (Inl e, s)
              | Inr tB \<Rightarrow>
                  (case best_bid w tA s of
                     (Inl e, s1) \<Rightarrow> (Inl e, s1)
                   | (Inr bidA, s1) \<Rightarrow>
                       (case best_bid w tB s1 of
                          (Inl e, s2) \<Rightarrow> (Inl e, s2)
                        | (Inr bidB, s2) \<Rightarrow> evaluate cfg w c bidA bidB s2)))))"

fun scan_loop :: "config \<Rightarrow> world \<Rightarrow> combo list \<Rightarrow> state \<Rightarrow> (pyexn + unit) \<times> state" where
  "scan_loop cfg w [] s = (Inr (), s)"
| "scan_loop cfg w (c # cs) s =
     (case scan_combo cfg w c s of
        (Inl e, s1) \<Rightarrow> (Inl e, s1)
      | (Inr _, s1) \<Rightarrow> scan_loop cfg w cs s1)"

definition scan_exit_opportunities :: "config \<Rightarrow> world \<Rightarrow> state \<Rightarrow> (pyexn + unit) \<times> state" where
  "scan_exit_opportunities cfg w s = scan_loop cfg w (combos cfg) (print banner s)"

subsection \<open>The top level\<close>

definition crash_msg :: "pyexn \<Rightarrow> string" where
  "crash_msg e = [CHR 0xE2, CHR 0x9D, CHR 0x8C] @ '' Exit monitor crashed:'' @ [CHR 0x0A] @ exn_text e"

text \<open>
  The guard under \<^verbatim>\<open>if __name__ == "__main__"\<close>: the result \<open>Inl e\<close> is the exception
  that leaves the program, \<open>Inr ()\<close> a run that ends normally.
\<close>

definition main :: "config \<Rightarrow> world \<Rightarrow> state \<Rightarrow> (pyexn + unit) \<times> state" where
  "main cfg w s =
     (case scan_exit_opportunities cfg w s of
        (Inr u, s1) \<Rightarrow> (Inr u, s1)
      | (Inl e, s1) \<Rightarrow>
          (case telegram_send cfg w (crash_msg e) s1 of
             (Inl e', s2) \<Rightarrow> (Inl e', s2)
           | (Inr _, s2) \<Rightarrow> (Inl e, s2)))"

section \<open>Example worlds\<close>

text \<open>
  Concrete answers of the network, for running the program: the first request gets an
  order book without bids, the second a server error, the third a body that is not JSON,
  and every later one times out.
\<close>

definition demo_get :: "nat \<Rightarrow> string \<Rightarrow> pyexn + response" where
  "demo_get n t =
     (if n = 0 then Inr \<lparr>status = 200, json_body = Some (PDict [(''bids'', PList [])])\<rparr>
      else if n = 1 then Inr \<lparr>status = 503, json_body = Some (PDict [])\<rparr>
      else if n = 2 then Inr \<lparr>status = 200, json_body = None\<rparr>
      else Inl (RequestException ''timed out''))"

definition demo_world :: world where
  "demo_world = \<lparr>http_get = demo_get, http_post = (\<lambda>n url payload. None)\<rparr>"


section \<open>Notions of the specification\<close>

text \<open>
  The specification speaks of the entries of a bid list whose price coerces to a number, and
  of the maximum of these prices. A bid entry is a mapping; its price is what
  \<^verbatim>\<open>safe_float\<close> makes of its \<^verbatim>\<open>price\<close> field.
\<close>

fun is_dict :: "pyval \<Rightarrow> bool" where
  "is_dict (PDict kvs) = True"
| "is_dict x = False"

definition price_of :: "pyval \<Rightarrow> pyfloat option" where
  "price_of b =
     (case py_get b ''price'' of
        Inl e \<Rightarrow> None
      | Inr x \<Rightarrow> (case safe_float x of Inl e \<Rightarrow> None | Inr p \<Rightarrow> p))"

definition prices :: "pyval list \<Rightarrow> pyfloat list" where
  "prices bs = List.map_filter price_of bs"

definition is_maximum :: "pyfloat \<Rightarrow> pyfloat list \<Rightarrow> bool" where
  "is_maximum m ps = (m \<in> set ps \<and> (\<forall>p \<in> set ps. fge m p))"

text \<open>One step of a running maximum: the new price replaces the best so far when it is larger.\<close>

definition keep_larger :: "pyfloat option \<Rightarrow> pyfloat \<Rightarrow> pyfloat option" where
  "keep_larger best p = (if best = None \<or> fgt p (the best) then Some p else best)"




text \<open>An order book with the given price fields, each entry with a size as well.\<close>

definition entries :: "pyval list \<Rightarrow> pyval list" where
  "entries ps = map (\<lambda>p. PDict [(''price'', p), (''size'', PStr ''100'')]) ps"

definition book :: "pyval list \<Rightarrow> pyval" where
  "book ps = PDict [(''market'', PStr ''0xabc''), (''bids'', PList (entries ps)), (''asks'', PList [])]"

definition serving :: "pyval \<Rightarrow> world" where
  "serving body =
     \<lparr>http_get = (\<lambda>n t. Inr \<lparr>status = 200, json_body = Some body\<rparr>),
      http_post = (\<lambda>n url payload. None)\<rparr>"

text \<open>Order books for the examples.\<close>

definition nan_first :: "pyval list" where
  "nan_first = [PStr ''nan'', PStr ''0.5'']"

definition plain_prices :: "pyval list" where
  "plain_prices = [PStr ''0.25'', PStr ''abc'', PStr ''0.5'', PNone]"


definition bare_string_bids :: pyval where
  "bare_string_bids = PDict [(''bids'', PList [PDict [(''price'', PStr ''0.5'')], PStr ''0.6''])]"

text \<open>A world that answers the \<open>n\<close>-th GET request with the \<open>n\<close>-th of the given bodies.\<close>

definition answering :: "pyval list \<Rightarrow> world" where
  "answering bodies =
     \<lparr>http_get = (\<lambda>n t. if n < length bodies then Inr \<lparr>status = 200, json_body = Some (bodies ! n)\<rparr>
                         else Inl (RequestException ''timed out'')),
      http_post = (\<lambda>n url payload. None)\<rparr>"

text \<open>A configuration whose only combination names a market that is not in \<open>TOKENS\<close>.\<close>

definition broken_config :: config where
  "broken_config = (shipped (Some ''T'') (Some ''42''))\<lparr>combos := [(''CUT25'', ''YES'', ''FOO'', ''YES'')]\<rparr>"

text \<open>A configuration with one market and one combination, and the shipped threshold.\<close>

definition small_config :: config where
  "small_config =
     (shipped (Some ''T'') (Some ''42''))
       \<lparr>tokens := [(''M'', [(''YES'', ''1''), (''NO'', ''2'')])],
        combos := [(''M'', ''YES'', ''M'', ''NO'')]\<rparr>"

section \<open>Properties\<close>

subsection \<open>Evaluation of \<^verbatim>\<open>float()\<close> on strings\<close>

lemmas parse_defs = parse_float_def parse_unsigned_def parse_decimal_def parse_exponent_def
  strip_def is_space_def is_digit_def lower_def digits_val_def digit_val_def pow10_def fneg_def

lemma safe_float_cases:
  "safe_float x = (case py_float x of Inl e \<Rightarrow> Inr None | Inr f \<Rightarrow> Inr (Some f))"
  by (simp add: safe_float_def try_except_def split: sum.splits)

subsection \<open>Numeric coercion\<close>

text \<open>
  Claim C8. \<^verbatim>\<open>safe_float\<close> never raises: whatever \<^verbatim>\<open>float(x)\<close> does, the result is
  a value; it is the float when the conversion succeeds and \<^verbatim>\<open>None\<close> when the conversion
  raises. The string \<^verbatim>\<open>"0.73"\<close> gives the double written \<^verbatim>\<open>0.73\<close>, and the string
  \<^verbatim>\<open>"abc"\<close> and \<^verbatim>\<open>None\<close> give \<^verbatim>\<open>None\<close>. The function takes no state and returns
  none: it has no effect.
\<close>

theorem safe_float_never_raises:
  "(\<exists>r. safe_float x = Inr r)
   \<and> (\<forall>f. py_float x = Inr f \<longrightarrow> safe_float x = Inr (Some f))
   \<and> (\<forall>e. py_float x = Inl e \<longrightarrow> safe_float x = Inr None)
   \<and> safe_float (PStr ''0.73'') = Inr (Some (round_double (73 / 100)))
   \<and> safe_float (PStr ''abc'') = Inr None
   \<and> safe_float PNone = Inr None"
proof -
  have a: "\<exists>r. safe_float x = Inr r"
    by (simp add: safe_float_cases split: sum.splits)
  have b: "\<forall>f. py_float x = Inr f \<longrightarrow> safe_float x = Inr (Some f)"
    by (simp add: safe_float_cases)
  have c: "\<forall>e. py_float x = Inl e \<longrightarrow> safe_float x = Inr None"
    by (simp add: safe_float_cases)
  have d: "safe_float (PStr ''0.73'') = Inr (Some (round_double (73 / 100)))"
    by (simp add: safe_float_cases parse_defs)
  have e: "safe_float (PStr ''abc'') = Inr None"
    by (simp add: safe_float_cases parse_defs)
  have f: "safe_float PNone = Inr None"
    by (simp add: safe_float_cases)
  from a b c d e f show ?thesis by blast
qed

theorem safe_float_never_raises_witness:
  "py_float (PBool True) = Inr (Fin 1) \<and> safe_float (PBool True) = Inr (Some (Fin 1))
   \<and> py_float (PList []) = Inl (float_type_error (PList [])) \<and> safe_float (PList []) = Inr None"
  using safe_float_never_raises [of "PBool True"] safe_float_never_raises [of "PList []"]
  by simp

subsection \<open>The order book client\<close>

lemma fetch_orderbook_state: "snd (fetch_orderbook w t s) = s\<lparr>gets := gets s @ [t]\<rparr>"
  by (simp add: fetch_orderbook_def)

lemma fetch_orderbook_value: "\<exists>v. fst (fetch_orderbook w t s) = Inr v"
  by (auto simp: fetch_orderbook_def try_except_def split: sum.splits)

text \<open>
  Claim C5. \<^verbatim>\<open>fetch_orderbook\<close> never raises, whatever the request does. When the request
  returns, \<^verbatim>\<open>raise_for_status\<close> passes and the body is JSON, the result is the parsed
  body. When anything in the \<^verbatim>\<open>try\<close> raises (the request itself, a status from 400 to
  599, a body that is not JSON), the result is \<^verbatim>\<open>None\<close>.
\<close>

theorem fetch_orderbook_never_raises:
  "(\<exists>v. fst (fetch_orderbook w t s) = Inr v)
   \<and> (\<forall>r v. http_get w (length (gets s)) t = Inr r \<and> raise_for_status r = Inr ()
            \<and> json_body r = Some v \<longrightarrow> fst (fetch_orderbook w t s) = Inr v)
   \<and> (\<forall>e. fetch_body (http_get w (length (gets s)) t) = Inl e
          \<longrightarrow> fst (fetch_orderbook w t s) = Inr PNone)
   \<and> (\<forall>e. http_get w (length (gets s)) t = Inl e \<longrightarrow> fst (fetch_orderbook w t s) = Inr PNone)
   \<and> (\<forall>r. http_get w (length (gets s)) t = Inr r \<and> 400 \<le> status r \<and> status r < 600
          \<longrightarrow> fst (fetch_orderbook w t s) = Inr PNone)
   \<and> (\<forall>r. http_get w (length (gets s)) t = Inr r \<and> json_body r = None
          \<longrightarrow> fst (fetch_orderbook w t s) = Inr PNone)"
  by (auto simp: fetch_orderbook_def fetch_body_def try_except_def raise_for_status_def
      response_json_def split: sum.splits option.splits if_splits)

theorem fetch_orderbook_never_raises_witness:
  "fst (fetch_orderbook demo_world ''7'' init) = Inr (PDict [(''bids'', PList [])])
   \<and> fst (fetch_orderbook demo_world ''7'' (init\<lparr>gets := [''1'']\<rparr>)) = Inr PNone
   \<and> fst (fetch_orderbook demo_world ''7'' (init\<lparr>gets := [''1'', ''2'', ''3'']\<rparr>)) = Inr PNone"
  using fetch_orderbook_never_raises [of demo_world "''7''" init]
    fetch_orderbook_never_raises [of demo_world "''7''" "init\<lparr>gets := [''1'']\<rparr>"]
    fetch_orderbook_never_raises [of demo_world "''7''" "init\<lparr>gets := [''1'', ''2'', ''3'']\<rparr>"]
  by (simp add: demo_world_def demo_get_def init_def raise_for_status_def)

subsection \<open>The notifier\<close>

lemma telegram_send_ok: "fst (telegram_send cfg w msg s) = Inr ()"
  by (simp add: telegram_send_def Let_def split: option.splits)

lemma telegram_send_calls: "tg_calls (snd (telegram_send cfg w msg s)) = tg_calls s @ [msg]"
  by (simp add: telegram_send_def Let_def print_def split: option.splits)

lemma telegram_send_gets: "gets (snd (telegram_send cfg w msg s)) = gets s"
  by (simp add: telegram_send_def Let_def print_def split: option.splits)



subsection \<open>The order of floats and the running maximum\<close>

lemma fge_refl: "a \<noteq> NaN \<Longrightarrow> fge a a"
  by (simp add: fge_def key_less_def)

lemma fgt_imp_fge: "fgt a b \<Longrightarrow> fge a b"
  by (auto simp: fge_def fgt_def key_less_def)

lemma not_fgt_imp_fge: "a \<noteq> NaN \<Longrightarrow> b \<noteq> NaN \<Longrightarrow> \<not> fgt a b \<Longrightarrow> fge b a"
  by (auto simp: fge_def fgt_def key_less_def)

lemma fge_trans: "fge a b \<Longrightarrow> fge b c \<Longrightarrow> fge a c"
  by (auto simp: fge_def key_less_def)

lemma price_of_dict:
  "safe_float (case map_of kvs ''price'' of None \<Rightarrow> PNone | Some v \<Rightarrow> v) = Inr (price_of (PDict kvs))"
  by (simp add: price_of_def safe_float_cases split: sum.splits)

lemma prices_Cons:
  "prices (b # bs) = (case price_of b of None \<Rightarrow> prices bs | Some p \<Rightarrow> p # prices bs)"
  by (simp add: prices_def List.map_filter_simps split: option.splits)

lemma bid_loop_fold:
  "\<forall>b \<in> set bs. is_dict b \<Longrightarrow> bid_loop best bs = Inr (foldl keep_larger best (prices bs))"
proof (induction bs arbitrary: best)
  case Nil
  then show ?case by (simp add: prices_def List.map_filter_simps)
next
  case (Cons b bs)
  then obtain kvs where b: "b = PDict kvs" by (cases b) auto
  from Cons have ih: "\<And>best. bid_loop best bs = Inr (foldl keep_larger best (prices bs))"
    by simp
  show ?case
  proof (cases "price_of b")
    case None
    then show ?thesis using ih b price_of_dict [of kvs] by (simp add: prices_Cons)
  next
    case (Some p)
    have "bid_loop best (b # bs) = bid_loop (keep_larger best p) bs"
      using Some b price_of_dict [of kvs] by (simp add: keep_larger_def)
    moreover have "foldl keep_larger best (prices (b # bs))
        = foldl keep_larger (keep_larger best p) (prices bs)"
      using Some by (simp add: prices_Cons)
    ultimately show ?thesis using ih by simp
  qed
qed

lemma bid_loop_raises:
  "\<exists>b \<in> set bs. \<not> is_dict b \<Longrightarrow> \<exists>m. bid_loop best bs = Inl (AttributeError m)"
proof (induction bs arbitrary: best)
  case Nil
  then show ?case by simp
next
  case (Cons b bs)
  show ?case
  proof (cases "is_dict b")
    case True
    then obtain kvs where b: "b = PDict kvs" by (cases b) auto
    from True Cons.prems have "\<exists>b \<in> set bs. \<not> is_dict b" by auto
    then have "\<And>best. \<exists>m. bid_loop best bs = Inl (AttributeError m)"
      using Cons.IH by blast
    then show ?thesis using b price_of_dict [of kvs] by simp
  next
    case False
    then show ?thesis by (cases b) auto
  qed
qed

lemma keep_larger_max:
  "NaN \<notin> set ps \<Longrightarrow> best \<noteq> Some NaN \<Longrightarrow> best \<noteq> None \<or> ps \<noteq> [] \<Longrightarrow>
   \<exists>m. foldl keep_larger best ps = Some m \<and> m \<noteq> NaN \<and> (m \<in> set ps \<or> best = Some m)
       \<and> (\<forall>p \<in> set ps. fge m p) \<and> (\<forall>b. best = Some b \<longrightarrow> fge m b)"
proof (induction ps arbitrary: best)
  case Nil
  then show ?case by (auto simp: fge_refl)
next
  case (Cons p ps)
  let ?b = "keep_larger best p"
  have p: "p \<noteq> NaN" and ps: "NaN \<notin> set ps" using Cons.prems by auto
  have b1: "?b \<noteq> Some NaN" using p Cons.prems(2) by (auto simp: keep_larger_def)
  have b2: "?b \<noteq> None" by (auto simp: keep_larger_def)
  from Cons.IH [OF ps b1] b2 obtain m where m: "foldl keep_larger ?b ps = Some m" "m \<noteq> NaN"
    "m \<in> set ps \<or> ?b = Some m" "\<forall>q \<in> set ps. fge m q" "\<forall>b. ?b = Some b \<longrightarrow> fge m b"
    by blast
  have bp: "\<exists>b. ?b = Some b \<and> fge b p \<and> (\<forall>c. best = Some c \<longrightarrow> fge b c) \<and> (b = p \<or> best = Some b)"
  proof (cases best)
    case None
    then show ?thesis using p by (simp add: keep_larger_def fge_refl)
  next
    case (Some c)
    then have c: "c \<noteq> NaN" using Cons.prems(2) by auto
    show ?thesis
    proof (cases "fgt p c")
      case True
      then show ?thesis using Some p by (simp add: keep_larger_def fge_refl fgt_imp_fge)
    next
      case False
      then show ?thesis using Some p c by (simp add: keep_larger_def fge_refl not_fgt_imp_fge)
    qed
  qed
  then obtain b where b: "?b = Some b" "fge b p" "\<forall>c. best = Some c \<longrightarrow> fge b c" "b = p \<or> best = Some b"
    by blast
  have mb: "fge m b" using m(5) b(1) by simp
  have "foldl keep_larger best (p # ps) = Some m" using m(1) by simp
  moreover have "m \<in> set (p # ps) \<or> best = Some m" using m(3) b by auto
  moreover have "\<forall>q \<in> set (p # ps). fge m q" using m(4) mb b(2) fge_trans by auto
  moreover have "\<forall>c. best = Some c \<longrightarrow> fge m c" using mb b(3) fge_trans by blast
  ultimately show ?case using m(2) by blast
qed

lemma best_bid_fst:
  "fst (fetch_orderbook w t s) = Inr raw \<Longrightarrow> fst (best_bid w t s) = best_of raw"
  by (cases "fetch_orderbook w t s") (auto simp: best_bid_def split: sum.splits)

lemma best_of_bids:
  "map_of kvs ''bids'' = Some (PList bs) \<Longrightarrow> best_of (PDict kvs) = bid_loop None bs"
proof -
  assume a: "map_of kvs ''bids'' = Some (PList bs)"
  then have "kvs \<noteq> []" by auto
  moreover from a have "''bids'' \<in> fst ` set kvs"
    by (metis map_of_eq_None_iff option.distinct(1))
  ultimately show ?thesis using a by (simp add: best_of_def)
qed


subsection \<open>Evaluation of floats\<close>

lemma floor_quotient: "\<lfloor>(numeral a :: rat) / numeral b\<rfloor> = numeral a div numeral b"
  using floor_divide_of_int_eq [of "numeral a" "numeral b", where ?'a = rat] by simp

lemmas float_eval = round_double_def round_mag_def ilog2_def pow2_def round_half_even_def
  log2_floor.simps Let_def floor_quotient

lemma round_half: "round_double (1 / 2) = Fin (1 / 2)"
  by (simp add: float_eval)

lemma round_quarter: "round_double (1 / 4) = Fin (1 / 4)"
  by (simp add: float_eval)

lemma parse_half: "parse_float ''0.5'' = Some (Fin (1 / 2))"
  by (simp add: parse_defs round_half)

lemma parse_quarter: "parse_float ''0.25'' = Some (Fin (1 / 4))"
  by (simp add: parse_defs round_quarter)

lemma parse_nan: "parse_float ''nan'' = Some NaN"
  by (simp add: parse_defs)

lemma parse_abc: "parse_float ''abc'' = None"
  by (simp add: parse_defs)

lemma price_of_entry:
  "price_of (PDict [(''price'', x), (''size'', y)]) = (case py_float x of Inl e \<Rightarrow> None | Inr f \<Rightarrow> Some f)"
  by (simp add: price_of_def safe_float_cases split: sum.splits)

lemma prices_entries:
  "prices (entries ps) = List.map_filter (\<lambda>x. case py_float x of Inl e \<Rightarrow> None | Inr f \<Rightarrow> Some f) ps"
  by (induction ps)
    (auto simp: entries_def prices_def List.map_filter_simps price_of_entry split: sum.splits)

lemma entries_dicts: "\<forall>b \<in> set (entries ps). is_dict b"
  by (auto simp: entries_def)

lemma book_bids: "book ps = PDict kvs \<Longrightarrow> map_of kvs ''bids'' = Some (PList (entries ps))"
  by (auto simp: book_def)

lemma fetch_serving: "fst (fetch_orderbook (serving body) t s) = Inr body"
  by (simp add: fetch_orderbook_def serving_def fetch_body_def raise_for_status_def
      response_json_def try_except_def)

lemma prices_nan_first: "prices (entries nan_first) = [NaN, Fin (1 / 2)]"
  by (simp add: prices_entries nan_first_def List.map_filter_simps parse_nan parse_half)

lemma prices_plain: "prices (entries plain_prices) = [Fin (1 / 4), Fin (1 / 2)]"
  by (simp add: prices_entries plain_prices_def List.map_filter_simps parse_quarter parse_half
      parse_abc float_type_error_def)


subsection \<open>The best bid\<close>

text \<open>
  Against claim C1 as it is stated: the order book with the prices \<^verbatim>\<open>"nan"\<close> and
  \<^verbatim>\<open>"0.5"\<close>, in this order. Both coerce (\<^verbatim>\<open>float("nan")\<close> succeeds), the loop keeps the
  NaN, since \<^verbatim>\<open>0.5 > nan\<close> is false, and the NaN returned is not the maximum of the two
  prices.
\<close>

theorem best_bid_nan_counterexample:
  "fst (best_bid (serving (book nan_first)) ''1'' init) = Inr (Some NaN)
   \<and> prices (entries nan_first) = [NaN, Fin (1 / 2)]
   \<and> \<not> is_maximum NaN (prices (entries nan_first))"
proof -
  have "best_of (book nan_first) = bid_loop None (entries nan_first)"
    using book_bids [of nan_first] by (simp add: book_def best_of_bids)
  also have "\<dots> = Inr (foldl keep_larger None [NaN, Fin (1 / 2)])"
    using bid_loop_fold [OF entries_dicts, of None nan_first] by (simp add: prices_nan_first)
  also have "\<dots> = Inr (Some NaN)"
    by (simp add: keep_larger_def fgt_def)
  finally have "fst (best_bid (serving (book nan_first)) ''1'' init) = Inr (Some NaN)"
    by (simp add: best_bid_fst [OF fetch_serving])
  then show ?thesis
    by (auto simp: prices_nan_first is_maximum_def fge_def)
qed

text \<open>
  Claim C1, amended. For a snapshot that is a mapping whose bid list is a list of mappings,
  with at least one price that coerces and no coerced price a NaN, \<^verbatim>\<open>best_bid\<close> returns
  the maximum of the coerced prices; the entries whose price does not coerce are left out.
  The result is that of one pass over the list that keeps the larger of the best so far and
  the next price (this part holds with NaNs too).
\<close>

theorem best_bid_maximum:
  assumes "fst (fetch_orderbook w t s) = Inr (PDict kvs)"
    and "map_of kvs ''bids'' = Some (PList bs)"
    and "\<forall>b \<in> set bs. is_dict b"
    and "prices bs \<noteq> []"
    and "NaN \<notin> set (prices bs)"
  shows "\<exists>m. fst (best_bid w t s) = Inr (Some m) \<and> is_maximum m (prices bs)
            \<and> fst (best_bid w t s) = Inr (foldl keep_larger None (prices bs))"
proof -
  have "fst (best_bid w t s) = bid_loop None bs"
    using assms(1,2) by (simp add: best_bid_fst best_of_bids)
  then have eq: "fst (best_bid w t s) = Inr (foldl keep_larger None (prices bs))"
    using assms(3) by (simp add: bid_loop_fold)
  from keep_larger_max [OF assms(5), of None] assms(4)
  obtain m where "foldl keep_larger None (prices bs) = Some m" "m \<in> set (prices bs)"
    "\<forall>p \<in> set (prices bs). fge m p"
    by auto
  then show ?thesis using eq by (auto simp: is_maximum_def)
qed

theorem best_bid_maximum_witness:
  "fst (fetch_orderbook (serving (book plain_prices)) ''1'' init) = Inr (book plain_prices)
   \<and> prices (entries plain_prices) = [Fin (1 / 4), Fin (1 / 2)]
   \<and> fst (best_bid (serving (book plain_prices)) ''1'' init) = Inr (Some (Fin (1 / 2)))
   \<and> is_maximum (Fin (1 / 2)) (prices (entries plain_prices))"
proof -
  have f: "fst (fetch_orderbook (serving (book plain_prices)) ''1'' init)
      = Inr (PDict [(''market'', PStr ''0xabc''), (''bids'', PList (entries plain_prices)), (''asks'', PList [])])"
    by (simp add: fetch_serving book_def)
  have m: "map_of [(''market'', PStr ''0xabc''), (''bids'', PList (entries plain_prices)), (''asks'', PList [])] ''bids''
      = Some (PList (entries plain_prices))"
    by simp
  have n: "prices (entries plain_prices) \<noteq> []" "NaN \<notin> set (prices (entries plain_prices))"
    by (simp_all add: prices_plain)
  from best_bid_maximum [OF f m entries_dicts n]
  show ?thesis
    by (auto simp: prices_plain keep_larger_def fgt_def key_less_def fetch_serving)
qed



lemma main_raises: "fst (scan_exit_opportunities cfg w s) = Inl e \<Longrightarrow> fst (main cfg w s) = Inl e"
  using telegram_send_ok [of cfg w "crash_msg e" "snd (scan_exit_opportunities cfg w s)"]
  by (cases "scan_exit_opportunities cfg w s";
      cases "telegram_send cfg w (crash_msg e) (snd (scan_exit_opportunities cfg w s))")
     (auto simp: main_def)

lemma scan_first_raises:
  assumes "combos cfg = (mktA, legA, mktB, legB) # cs"
    and "lookup cfg mktA legA = Inr tA" and "lookup cfg mktB legB = Inr tB"
    and "fst (best_bid w tA (print banner s)) = Inl e"
  shows "fst (scan_exit_opportunities cfg w s) = Inl e"
  using assms
  by (cases "best_bid w tA (print banner s)")
     (simp add: scan_exit_opportunities_def scan_combo_def)

text \<open>
  Claim C10. A snapshot whose bid list has an entry that is not a mapping makes
  \<^verbatim>\<open>best_bid\<close> raise an \<^verbatim>\<open>AttributeError\<close> (the entry has no \<^verbatim>\<open>get\<close>), whatever
  the other entries are; when this is the first fetch of the scan, the exception leaves
  \<^verbatim>\<open>scan_exit_opportunities\<close> and the program through the top-level guard.
\<close>

theorem best_bid_malformed_entry:
  assumes "fst (fetch_orderbook w t s) = Inr (PDict kvs)"
    and "map_of kvs ''bids'' = Some (PList bs)"
    and "\<exists>b \<in> set bs. \<not> is_dict b"
  shows "\<exists>m. fst (best_bid w t s) = Inl (AttributeError m)
     \<and> (\<forall>cfg mktA legA mktB legB cs tB s0.
           combos cfg = (mktA, legA, mktB, legB) # cs \<and> lookup cfg mktA legA = Inr t
           \<and> lookup cfg mktB legB = Inr tB \<and> s = print banner s0
           \<longrightarrow> fst (main cfg w s0) = Inl (AttributeError m))"
proof -
  from assms bid_loop_raises [OF assms(3), of None]
  obtain m where m: "fst (best_bid w t s) = Inl (AttributeError m)"
    by (auto simp: best_bid_fst best_of_bids)
  then show ?thesis
    using scan_first_raises main_raises by blast
qed

theorem best_bid_malformed_entry_witness:
  "fst (fetch_orderbook (serving bare_string_bids) ''1'' (print banner init)) = Inr bare_string_bids
   \<and> (\<exists>m. fst (best_bid (serving bare_string_bids) ''1'' (print banner init)) = Inl (AttributeError m)
          \<and> fst (main (shipped None None\<lparr>tokens := [(''M'', [(''YES'', ''1''), (''NO'', ''2'')])],
                                          combos := [(''M'', ''YES'', ''M'', ''NO'')]\<rparr>)
                    (serving bare_string_bids) init) = Inl (AttributeError m))"
proof -
  have f: "fst (fetch_orderbook (serving bare_string_bids) ''1'' (print banner init))
      = Inr (PDict [(''bids'', PList [PDict [(''price'', PStr ''0.5'')], PStr ''0.6''])])"
    by (simp add: fetch_serving bare_string_bids_def)
  have m: "map_of [(''bids'', PList [PDict [(''price'', PStr ''0.5'')], PStr ''0.6''])] ''bids''
      = Some (PList [PDict [(''price'', PStr ''0.5'')], PStr ''0.6''])"
    by simp
  have n: "\<exists>b \<in> set [PDict [(''price'', PStr ''0.5'')], PStr ''0.6'']. \<not> is_dict b"
    by simp
  from best_bid_malformed_entry [OF f m n] obtain msg where
    a: "fst (best_bid (serving bare_string_bids) ''1'' (print banner init)) = Inl (AttributeError msg)"
    and b: "\<forall>cfg mktA legA mktB legB cs tB s0.
           combos cfg = (mktA, legA, mktB, legB) # cs \<and> lookup cfg mktA legA = Inr ''1''
           \<and> lookup cfg mktB legB = Inr tB \<and> print banner init = print banner s0
           \<longrightarrow> fst (main cfg (serving bare_string_bids) s0) = Inl (AttributeError msg)"
    by blast
  let ?cfg = "shipped None None\<lparr>tokens := [(''M'', [(''YES'', ''1''), (''NO'', ''2'')])],
                                 combos := [(''M'', ''YES'', ''M'', ''NO'')]\<rparr>"
  have "combos ?cfg = (''M'', ''YES'', ''M'', ''NO'') # [] \<and> lookup ?cfg ''M'' ''YES'' = Inr ''1''
      \<and> lookup ?cfg ''M'' ''NO'' = Inr ''2'' \<and> print banner init = print banner init"
    by (simp add: shipped_def lookup_def)
  with b have "fst (main ?cfg (serving bare_string_bids) init) = Inl (AttributeError msg)"
    by blast
  with a show ?thesis by (simp add: fetch_serving)
qed

subsection \<open>The scanner and the top level\<close>

lemma best_bid_state: "snd (best_bid w t s) = s\<lparr>gets := gets s @ [t]\<rparr>"
  using fetch_orderbook_state [of w t s]
  by (cases "fetch_orderbook w t s") (auto simp: best_bid_def split: sum.splits)

lemma best_bid_pair: "best_bid w t s = (fst (best_bid w t s), s\<lparr>gets := gets s @ [t]\<rparr>)"
  using best_bid_state [of w t s] by (cases "best_bid w t s") simp

lemma telegram_send_pair:
  "telegram_send cfg w msg s = (Inr (), snd (telegram_send cfg w msg s))"
  using telegram_send_ok [of cfg w msg s] by (cases "telegram_send cfg w msg s") simp

lemma telegram_send_out: "\<exists>rest. out (snd (telegram_send cfg w msg s)) = out s @ rest"
  by (simp add: telegram_send_def Let_def print_def split: option.splits)

lemma scan_combo_evaluate:
  assumes "lookup cfg mktA legA = Inr tA" and "lookup cfg mktB legB = Inr tB"
    and "fst (best_bid w tA s) = Inr bidA"
    and "fst (best_bid w tB (s\<lparr>gets := gets s @ [tA]\<rparr>)) = Inr bidB"
  shows "scan_combo cfg w (mktA, legA, mktB, legB) s
     = evaluate cfg w (mktA, legA, mktB, legB) bidA bidB (s\<lparr>gets := gets s @ [tA, tB]\<rparr>)"
proof -
  have a: "best_bid w tA s = (Inr bidA, s\<lparr>gets := gets s @ [tA]\<rparr>)"
    using best_bid_pair [of w tA s] assms(3) by simp
  have b: "best_bid w tB (s\<lparr>gets := gets s @ [tA]\<rparr>) = (Inr bidB, s\<lparr>gets := gets s @ [tA, tB]\<rparr>)"
    using best_bid_pair [of w tB "s\<lparr>gets := gets s @ [tA]\<rparr>"] assms(4) by simp
  show ?thesis using assms(1,2) a b by (simp add: scan_combo_def)
qed

lemma alert_msg_parts:
  "\<exists>pre mid post. alert_msg cfg c tot = pre @ format_f 4 tot @ mid @ format_f 2 (threshold cfg) @ post"
proof -
  obtain mktA legA mktB legB where c: "c = (mktA, legA, mktB, legB)" by (cases c) auto
  show ?thesis unfolding c alert_msg_def prod.case
    by (metis append.assoc)
qed

lemma eval_line_parts:
  "\<exists>pre m1 m2. eval_line c a b tot = pre @ format_f 4 a @ m1 @ format_f 4 b @ m2 @ format_f 4 tot"
proof -
  obtain mktA legA mktB legB where c: "c = (mktA, legA, mktB, legB)" by (cases c) auto
  show ?thesis unfolding c eval_line_def prod.case
    by (metis append.assoc)
qed

lemma evaluate_present:
  "evaluate cfg w c (Some a) (Some b) s =
     (if fge (fadd a b) (threshold cfg)
      then (Inr (), print alert_sent (snd (telegram_send cfg w (alert_msg cfg c (fadd a b))
                                       (print (eval_line c a b (fadd a b)) s))))
      else (Inr (), print (eval_line c a b (fadd a b)) s))"
  using telegram_send_ok [of cfg w "alert_msg cfg c (fadd a b)" "print (eval_line c a b (fadd a b)) s"]
  by (cases "telegram_send cfg w (alert_msg cfg c (fadd a b)) (print (eval_line c a b (fadd a b)) s)")
     (auto simp: evaluate_def Let_def)

text \<open>
  Claim C3. For a combination whose tokens resolve and whose two best bids are both
  present, with \<open>total = fadd a b\<close>: the turn of the loop ends normally;
  \<^verbatim>\<open>telegram_send\<close> is called, once and with the alert message, exactly when
  \<open>total \<ge> threshold\<close>; the alert message contains the total with 4 decimals and the
  threshold with 2 decimals; the evaluation line, with both bids and the total with 4
  decimals, is printed in both cases; and below the threshold nothing else happens.
\<close>

theorem scan_combo_threshold:
  assumes "lookup cfg mktA legA = Inr tA" and "lookup cfg mktB legB = Inr tB"
    and "fst (best_bid w tA s) = Inr (Some a)"
    and "fst (best_bid w tB (s\<lparr>gets := gets s @ [tA]\<rparr>)) = Inr (Some b)"
  shows "fst (scan_combo cfg w (mktA, legA, mktB, legB) s) = Inr ()
     \<and> tg_calls (snd (scan_combo cfg w (mktA, legA, mktB, legB) s))
         = (if fge (fadd a b) (threshold cfg)
            then tg_calls s @ [alert_msg cfg (mktA, legA, mktB, legB) (fadd a b)]
            else tg_calls s)
     \<and> (\<exists>pre mid post. alert_msg cfg (mktA, legA, mktB, legB) (fadd a b)
            = pre @ format_f 4 (fadd a b) @ mid @ format_f 2 (threshold cfg) @ post)
     \<and> (\<exists>rest. out (snd (scan_combo cfg w (mktA, legA, mktB, legB) s))
            = out s @ [eval_line (mktA, legA, mktB, legB) a b (fadd a b)] @ rest)
     \<and> (\<exists>pre m1 m2. eval_line (mktA, legA, mktB, legB) a b (fadd a b)
            = pre @ format_f 4 a @ m1 @ format_f 4 b @ m2 @ format_f 4 (fadd a b))
     \<and> (\<not> fge (fadd a b) (threshold cfg) \<longrightarrow>
          snd (scan_combo cfg w (mktA, legA, mktB, legB) s)
            = s\<lparr>out := out s @ [eval_line (mktA, legA, mktB, legB) a b (fadd a b)],
                 gets := gets s @ [tA, tB]\<rparr>)"
proof -
  let ?c = "(mktA, legA, mktB, legB)"
  let ?s2 = "s\<lparr>gets := gets s @ [tA, tB]\<rparr>"
  let ?s3 = "print (eval_line ?c a b (fadd a b)) ?s2"
  have sc: "scan_combo cfg w ?c s = evaluate cfg w ?c (Some a) (Some b) ?s2"
    by (rule scan_combo_evaluate [OF assms])
  obtain rest where rest: "out (snd (telegram_send cfg w (alert_msg cfg ?c (fadd a b)) ?s3)) = out ?s3 @ rest"
    using telegram_send_out by blast
  have 1: "fst (scan_combo cfg w ?c s) = Inr ()"
    by (simp add: sc evaluate_present)
  have 2: "tg_calls (snd (scan_combo cfg w ?c s))
         = (if fge (fadd a b) (threshold cfg) then tg_calls s @ [alert_msg cfg ?c (fadd a b)] else tg_calls s)"
    by (simp add: sc evaluate_present telegram_send_calls print_def)
  have 4: "\<exists>rest. out (snd (scan_combo cfg w ?c s)) = out s @ [eval_line ?c a b (fadd a b)] @ rest"
    using rest by (simp add: sc evaluate_present print_def)
  have 6: "\<not> fge (fadd a b) (threshold cfg) \<longrightarrow>
          snd (scan_combo cfg w ?c s) = s\<lparr>out := out s @ [eval_line ?c a b (fadd a b)], gets := gets s @ [tA, tB]\<rparr>"
    by (simp add: sc evaluate_present print_def)
  from 1 2 4 6 alert_msg_parts [of cfg ?c "fadd a b"] eval_line_parts [of ?c a b "fadd a b"]
  show ?thesis by blast
qed
















text \<open>
  Claim C7. When an exception leaves \<^verbatim>\<open>scan_exit_opportunities\<close>, the guard calls
  \<^verbatim>\<open>telegram_send\<close> once, with the crash message, which ends with the text of the
  exception, and the same exception then leaves the program. When the scan ends normally,
  so does the program, in the same state.
\<close>

theorem main_guard:
  "(\<forall>e s1. scan_exit_opportunities cfg w s = (Inl e, s1) \<longrightarrow>
        fst (main cfg w s) = Inl e
        \<and> tg_calls (snd (main cfg w s)) = tg_calls s1 @ [crash_msg e]
        \<and> (\<exists>pre. crash_msg e = pre @ exn_text e))
   \<and> (\<forall>s1. scan_exit_opportunities cfg w s = (Inr (), s1) \<longrightarrow> main cfg w s = (Inr (), s1))"
proof -
  have "fst (main cfg w s) = Inl e \<and> tg_calls (snd (main cfg w s)) = tg_calls s1 @ [crash_msg e]"
    if "scan_exit_opportunities cfg w s = (Inl e, s1)" for e s1
    using that telegram_send_ok [of cfg w "crash_msg e" s1] telegram_send_calls [of cfg w "crash_msg e" s1]
    by (cases "telegram_send cfg w (crash_msg e) s1") (auto simp: main_def)
  moreover have "\<exists>pre. crash_msg e = pre @ exn_text e" for e
    by (simp add: crash_msg_def)
  moreover have "main cfg w s = (Inr (), s1)" if "scan_exit_opportunities cfg w s = (Inr (), s1)" for s1
    using that by (simp add: main_def)
  ultimately show ?thesis by blast
qed

text \<open>
  Claim C9. In the shipped configuration both (market, leg) pairs of every combination of
  \<open>MONITORED_COMBOS\<close> are in \<open>TOKENS\<close>: neither lookup of the scanner raises.
\<close>

theorem shipped_combos_resolve:
  "\<forall>(mktA, legA, mktB, legB) \<in> set MONITORED_COMBOS.
      (\<exists>tA. lookup (shipped tok chat) mktA legA = Inr tA)
      \<and> (\<exists>tB. lookup (shipped tok chat) mktB legB = Inr tB)"
  by (simp add: MONITORED_COMBOS_def shipped_def lookup_def TOKENS_def)


theorem shipped_combos_resolve_witness:
  "(''CUT25'', ''YES'', ''CUTCUTPAUSE'', ''YES'') \<in> set MONITORED_COMBOS
   \<and> (\<exists>tA. lookup (shipped None None) ''CUT25'' ''YES'' = Inr tA)
   \<and> (\<exists>tB. lookup (shipped None None) ''CUTCUTPAUSE'' ''YES'' = Inr tB)"
proof -
  have m: "(''CUT25'', ''YES'', ''CUTCUTPAUSE'', ''YES'') \<in> set MONITORED_COMBOS"
    by (simp add: MONITORED_COMBOS_def)
  from bspec [OF shipped_combos_resolve [of None None] m] m show ?thesis by simp
qed

lemma fetch_answering:
  "length (gets s) < length bodies \<Longrightarrow>
   fst (fetch_orderbook (answering bodies) t s) = Inr (bodies ! length (gets s))"
  by (simp add: fetch_orderbook_def answering_def fetch_body_def raise_for_status_def
      response_json_def try_except_def)

lemma best_bid_book:
  "fst (fetch_orderbook w t s) = Inr (book ps) \<Longrightarrow>
   fst (best_bid w t s) = Inr (foldl keep_larger None (prices (entries ps)))"
  using bid_loop_fold [OF entries_dicts, of None ps]
  by (simp add: best_bid_fst book_def best_of_bids)

lemma parse_052: "parse_float ''0.52'' = Some (Fin (1170935903116329 / 2251799813685248))"
  by (simp add: parse_defs float_eval)

lemma parse_050: "parse_float ''0.50'' = Some (Fin (1 / 2))"
  by (simp add: parse_defs float_eval)

lemma parse_040: "parse_float ''0.40'' = Some (Fin (3602879701896397 / 9007199254740992))"
  by (simp add: parse_defs float_eval)

lemma parse_055: "parse_float ''0.55'' = Some (Fin (2476979795053773 / 4503599627370496))"
  by (simp add: parse_defs float_eval)

lemma threshold_value: "THRESHOLD = Fin (4548635623644201 / 4503599627370496)"
  by (simp add: THRESHOLD_def float_eval)

lemma sum_above:
  "fadd (Fin (1170935903116329 / 2251799813685248)) (Fin (1 / 2))
     = Fin (2296835809958953 / 2251799813685248)"
  by (simp add: float_eval)

lemma sum_below:
  "fadd (Fin (3602879701896397 / 9007199254740992)) (Fin (2476979795053773 / 4503599627370496))
     = Fin (8556839292003943 / 9007199254740992)"
  by (simp add: float_eval)

lemma digit_chars:
  "char_of (48::nat) = CHR ''0''" "char_of (49::nat) = CHR ''1''" "char_of (50::nat) = CHR ''2''"
  "char_of (51::nat) = CHR ''3''" "char_of (52::nat) = CHR ''4''" "char_of (53::nat) = CHR ''5''"
  "char_of (54::nat) = CHR ''6''" "char_of (55::nat) = CHR ''7''" "char_of (56::nat) = CHR ''8''"
  "char_of (57::nat) = CHR ''9''"
  by code_simp+

lemmas format_eval = fixed_def zero_pad_def round_half_even_def dec.simps Let_def floor_quotient
  digit_chars

lemma format_total: "format_f 4 (Fin (2296835809958953 / 2251799813685248)) = ''1.0200''"
  by (simp add: format_eval)

lemma format_threshold: "format_f 2 THRESHOLD = ''1.01''"
  by (simp add: threshold_value format_eval)

lemma best_bid_first:
  "fst (best_bid (answering [book [PStr p], body]) t init)
     = Inr (case parse_float p of None \<Rightarrow> None | Some f \<Rightarrow> Some f)"
proof -
  have "fst (fetch_orderbook (answering [book [PStr p], body]) t init) = Inr (book [PStr p])"
    using fetch_answering [of init "[book [PStr p], body]" t] by (simp add: init_def)
  from best_bid_book [OF this] show ?thesis
    by (simp add: prices_entries List.map_filter_simps keep_larger_def split: option.splits)
qed

lemma best_bid_second:
  "fst (best_bid (answering [body, book [PStr p]]) t (init\<lparr>gets := gets init @ [t']\<rparr>))
     = Inr (case parse_float p of None \<Rightarrow> None | Some f \<Rightarrow> Some f)"
proof -
  have "fst (fetch_orderbook (answering [body, book [PStr p]]) t (init\<lparr>gets := gets init @ [t']\<rparr>))
      = Inr (book [PStr p])"
    using fetch_answering [of "init\<lparr>gets := gets init @ [t']\<rparr>" "[body, book [PStr p]]" t]
    by (simp add: init_def)
  from best_bid_book [OF this] show ?thesis
    by (simp add: prices_entries List.map_filter_simps keep_larger_def split: option.splits)
qed

lemma small_lookup:
  "lookup small_config ''M'' ''YES'' = Inr ''1''" "lookup small_config ''M'' ''NO'' = Inr ''2''"
  by (simp_all add: small_config_def shipped_def lookup_def)

theorem scan_combo_threshold_witness:
  "fge (Fin (2296835809958953 / 2251799813685248)) (threshold small_config)
   \<and> tg_calls (snd (scan_combo small_config (answering [book [PStr ''0.52''], book [PStr ''0.50'']])
                     (''M'', ''YES'', ''M'', ''NO'') init))
       = [alert_msg small_config (''M'', ''YES'', ''M'', ''NO'') (Fin (2296835809958953 / 2251799813685248))]
   \<and> format_f 4 (Fin (2296835809958953 / 2251799813685248)) = ''1.0200''
   \<and> format_f 2 (threshold small_config) = ''1.01''
   \<and> \<not> fge (Fin (8556839292003943 / 9007199254740992)) (threshold small_config)
   \<and> tg_calls (snd (scan_combo small_config (answering [book [PStr ''0.40''], book [PStr ''0.55'']])
                     (''M'', ''YES'', ''M'', ''NO'') init)) = []
   \<and> out (snd (scan_combo small_config (answering [book [PStr ''0.40''], book [PStr ''0.55'']])
                     (''M'', ''YES'', ''M'', ''NO'') init))
       = [eval_line (''M'', ''YES'', ''M'', ''NO'') (Fin (3602879701896397 / 9007199254740992))
            (Fin (2476979795053773 / 4503599627370496)) (Fin (8556839292003943 / 9007199254740992))]"
proof -
  have t: "threshold small_config = THRESHOLD"
    by (simp add: small_config_def shipped_def)
  have a1: "fst (best_bid (answering [book [PStr ''0.52''], book [PStr ''0.50'']]) ''1'' init)
      = Inr (Some (Fin (1170935903116329 / 2251799813685248)))"
    by (simp add: best_bid_first parse_052)
  have a2: "fst (best_bid (answering [book [PStr ''0.52''], book [PStr ''0.50'']]) ''2''
                  (init\<lparr>gets := gets init @ [''1'']\<rparr>)) = Inr (Some (Fin (1 / 2)))"
    by (simp add: best_bid_second parse_050)
  have b1: "fst (best_bid (answering [book [PStr ''0.40''], book [PStr ''0.55'']]) ''1'' init)
      = Inr (Some (Fin (3602879701896397 / 9007199254740992)))"
    by (simp add: best_bid_first parse_040)
  have b2: "fst (best_bid (answering [book [PStr ''0.40''], book [PStr ''0.55'']]) ''2''
                  (init\<lparr>gets := gets init @ [''1'']\<rparr>)) = Inr (Some (Fin (2476979795053773 / 4503599627370496)))"
    by (simp add: best_bid_second parse_055)
  have ge: "fge (Fin (2296835809958953 / 2251799813685248)) THRESHOLD"
    by (simp add: threshold_value fge_def key_less_def)
  have lt: "\<not> fge (Fin (8556839292003943 / 9007199254740992)) THRESHOLD"
    by (simp add: threshold_value fge_def key_less_def)
  note above = scan_combo_threshold [OF small_lookup a1 a2, unfolded sum_above t]
  note below = scan_combo_threshold [OF small_lookup b1 b2, unfolded sum_below t]
  have 1: "tg_calls (snd (scan_combo small_config (answering [book [PStr ''0.52''], book [PStr ''0.50'']])
                     (''M'', ''YES'', ''M'', ''NO'') init))
       = [alert_msg small_config (''M'', ''YES'', ''M'', ''NO'') (Fin (2296835809958953 / 2251799813685248))]"
    using above ge by (simp add: init_def)
  have 2: "tg_calls (snd (scan_combo small_config (answering [book [PStr ''0.40''], book [PStr ''0.55'']])
                     (''M'', ''YES'', ''M'', ''NO'') init)) = []"
    using below lt by (simp add: init_def)
  have 3: "out (snd (scan_combo small_config (answering [book [PStr ''0.40''], book [PStr ''0.55'']])
                     (''M'', ''YES'', ''M'', ''NO'') init))
       = [eval_line (''M'', ''YES'', ''M'', ''NO'') (Fin (3602879701896397 / 9007199254740992))
            (Fin (2476979795053773 / 4503599627370496)) (Fin (8556839292003943 / 9007199254740992))]"
    using below lt by (simp add: init_def)
  have 4: "format_f 4 (Fin (2296835809958953 / 2251799813685248)) = ''1.0200''"
    by (rule format_total)
  have 5: "format_f 2 (threshold small_config) = ''1.01''"
    unfolding t by (rule format_threshold)
  have 6: "fge (Fin (2296835809958953 / 2251799813685248)) (threshold small_config)"
    unfolding t by (rule ge)
  have 7: "\<not> fge (Fin (8556839292003943 / 9007199254740992)) (threshold small_config)"
    unfolding t by (rule lt)
  from 1 2 3 4 5 6 7 show ?thesis by blast
qed


theorem main_guard_witness:
  "scan_exit_opportunities broken_config demo_world init = (Inl (KeyError ''FOO''), print banner init)
   \<and> fst (main broken_config demo_world init) = Inl (KeyError ''FOO'')
   \<and> tg_calls (snd (main broken_config demo_world init)) = [crash_msg (KeyError ''FOO'')]
   \<and> exn_text (KeyError ''FOO'') = [CHR 0x27] @ ''FOO'' @ [CHR 0x27]
   \<and> scan_exit_opportunities (small_config\<lparr>combos := []\<rparr>) demo_world init = (Inr (), print banner init)
   \<and> main (small_config\<lparr>combos := []\<rparr>) demo_world init = (Inr (), print banner init)"
proof -
  have a: "scan_exit_opportunities broken_config demo_world init = (Inl (KeyError ''FOO''), print banner init)"
    by (simp add: scan_exit_opportunities_def broken_config_def shipped_def scan_combo_def
        lookup_def TOKENS_def)
  have b: "scan_exit_opportunities (small_config\<lparr>combos := []\<rparr>) demo_world init = (Inr (), print banner init)"
    by (simp add: scan_exit_opportunities_def)
  from main_guard [of broken_config demo_world init] main_guard [of "small_config\<lparr>combos := []\<rparr>" demo_world init]
    a b
  show ?thesis by (simp add: print_def init_def quote_def)
qed

end
